theory Spec2Isabelle
  imports Main "HOL-Library.Word"
begin

section \<open>JavaScript values\<close>

text \<open>
  The values that cross the store client and the HTTP boundary are parsed JSON, plus
  JavaScript's \<open>undefined\<close> (the value of a missing property or of an index past the end).
  An object is the list of its properties; a property read takes the first binding.
\<close>

datatype json =
    JUndefined
  | JNull
  | JBool bool
  | JNum int
  | JStr string
  | JArr "json list"
  | JObj "(string \<times> json) list"

datatype error =
    TypeError
  | NoAccountFound
  | NoCreditsFound
  | ErrorCreatingAccount
  | ErrorCreatingCredits

text \<open>JavaScript truthiness: \<open>!v\<close> is \<open>\<not> truthy v\<close>.\<close>

fun truthy :: "json \<Rightarrow> bool" where
  "truthy JUndefined = False"
| "truthy JNull = False"
| "truthy (JBool b) = b"
| "truthy (JNum n) = (n \<noteq> 0)"
| "truthy (JStr s) = (s \<noteq> [])"
| "truthy (JArr xs) = True"
| "truthy (JObj fs) = True"

text \<open>\<open>Array.isArray(v)\<close>.\<close>

fun isArray :: "json \<Rightarrow> bool" where
  "isArray (JArr xs) = True"
| "isArray v = False"

text \<open>
  \<open>v[0]\<close> on an array: the first element, \<open>undefined\<close> when the array is empty.
  It is only applied after \<open>Array.isArray\<close> has held.
\<close>

fun index0 :: "json \<Rightarrow> json" where
  "index0 (JArr (x # xs)) = x"
| "index0 v = JUndefined"

text \<open>
  \<open>v.name\<close> for a property name that is no built-in of strings, numbers or arrays
  (the code reads \<open>apikey\<close>, \<open>credits\<close> and \<open>total_credits_cents\<close>): reading a property of
  \<open>undefined\<close> or \<open>null\<close> throws a TypeError, an object yields the property or
  \<open>undefined\<close>, every other value yields \<open>undefined\<close>.
\<close>

fun getProp :: "json \<Rightarrow> string \<Rightarrow> error + json" where
  "getProp JUndefined name = Inl TypeError"
| "getProp JNull name = Inl TypeError"
| "getProp (JObj fs) name = Inr (case map_of fs name of None \<Rightarrow> JUndefined | Some v \<Rightarrow> v)"
| "getProp v name = Inr JUndefined"


section \<open>Credential generator (account.ts, generateApiKey)\<close>

text \<open>
  The secure random source is a supply of bytes; \<open>randomBytes n\<close> draws the next \<open>n\<close>
  bytes and leaves the rest of the supply. \<open>Buffer.toString("hex")\<close> writes each byte as
  two lowercase hexadecimal digits, high nibble first.
\<close>

type_synonym entropy = "nat \<Rightarrow> 8 word"

definition randomBytes :: "nat \<Rightarrow> entropy \<Rightarrow> 8 word list \<times> entropy" where
  "randomBytes n src = (map src [0..<n], \<lambda>i. src (i + n))"

definition hexDigit :: "nat \<Rightarrow> char" where
  "hexDigit d = ''0123456789abcdef'' ! (d mod 16)"

definition hexByte :: "8 word \<Rightarrow> string" where
  "hexByte b = [hexDigit (unat b div 16), hexDigit (unat b mod 16)]"

definition toHex :: "8 word list \<Rightarrow> string" where
  "toHex bs = concat (map hexByte bs)"

text \<open>\<open>generateApiKey(length = 64)\<close>: \<open>None\<close> is the call without an argument.\<close>

definition generateApiKey :: "nat option \<Rightarrow> entropy \<Rightarrow> string \<times> entropy" where
  "generateApiKey len src =
     (let n = (case len of None \<Rightarrow> 64 | Some l \<Rightarrow> l);
          (bytes, src') = randomBytes n src
      in (toHex bytes, src'))"

text \<open>The reader of the encoding, used to state that the credential encodes the bytes drawn.\<close>

definition hexVal :: "char \<Rightarrow> nat option" where
  "hexVal ch = map_of (zip ''0123456789abcdef'' [0..<16]) ch"

fun fromHex :: "string \<Rightarrow> 8 word list option" where
  "fromHex [] = Some []"
| "fromHex [c] = None"
| "fromHex (hi # lo # rest) =
     (case (hexVal hi, hexVal lo, fromHex rest) of
        (Some h, Some l, Some bs) \<Rightarrow> Some (word_of_nat (16 * h + l) # bs)
      | _ \<Rightarrow> None)"

definition lowerHex :: "string \<Rightarrow> bool" where
  "lowerHex s = list_all (\<lambda>ch. ch \<in> set ''0123456789abcdef'') s"


section \<open>Store client and request state\<close>

text \<open>
  The principal handed over by the identity provider: \<open>user.id\<close> and \<open>user.email\<close>.
\<close>

record user =
  user_id :: string
  email :: "string option"

text \<open>The rows the code writes: \<open>{id, apikey, name}\<close> and \<open>{id, total_credits_cents}\<close>.\<close>

record account_row =
  acc_id :: string
  acc_apikey :: string
  acc_name :: "string option"

record credits_row =
  cr_id :: string
  total_credits_cents :: int

datatype store_error = NotFound | AlreadyExists | StorageError

text \<open>
  The three calls the code makes on \<open>supabaseAdminClient\<close>. The client library is not
  part of the repository's sources, so it is a parameter over any store type \<open>'s\<close>:
  \<^item> \<open>select_single s id\<close> is
    \<open>from("accounts").select("apikey").eq("id", id).single()\<close>, answering \<open>{data, error}\<close>;
  \<^item> \<open>insert_select s row\<close> is \<open>from("accounts").insert([row]).select()\<close>, answering the store
    after the call and \<open>error\<close>;
  \<^item> \<open>upsert s row\<close> is
    \<open>from("credits").upsert(row, {onConflict: "id", ignoreDuplicates: true})\<close>.
\<close>

record 's client =
  select_single :: "'s \<Rightarrow> string \<Rightarrow> json \<times> store_error option"
  insert_select :: "'s \<Rightarrow> account_row \<Rightarrow> 's \<times> store_error option"
  upsert :: "'s \<Rightarrow> credits_row \<Rightarrow> 's \<times> store_error option"

datatype store_op =
    Select string
  | Insert account_row
  | Upsert credits_row

text \<open>
  What a request runs against: the store, the random supply, and the log of the store
  calls made so far (each call of the client appends its entry).
\<close>

record 's world =
  store :: 's
  entropy :: entropy
  trace :: "store_op list"



section \<open>Provisioning orchestrator (account.ts)\<close>

text \<open>
  The one \<open>AppState\<close> interface serves the server and the client. The server starts from
  \<open>{} as AppState\<close>, where every property is \<open>undefined\<close>, and assigns \<open>apikey\<close> and
  \<open>credits\<close>.
\<close>

record counts =
  attempts :: nat
  breaches :: nat

record stats =
  last24h :: counts
  last7d :: counts
  alltime :: counts

record AppState =
  apikey :: json
  credits :: json
  promptLoading :: "bool option"
  accountLoading :: "bool option"
  stats :: "stats option"

definition emptyAppState :: AppState where
  "emptyAppState =
     \<lparr>apikey = JUndefined, credits = JUndefined, promptLoading = None,
      accountLoading = None, stats = None\<rparr>"

text \<open>
  \<open>getAppStateForUser\<close>: one read, then the shape checks on \<open>data\<close>. The \<open>error\<close> of the
  read is only logged.
\<close>

definition getAppStateForUser ::
  "'s client \<Rightarrow> user \<Rightarrow> 's world \<Rightarrow> (error + AppState) \<times> 's world" where
  "getAppStateForUser c usr w =
     (let (data, err) = select_single c (store w) (user_id usr);
          w' = w\<lparr>trace := trace w @ [Select (user_id usr)]\<rparr>
      in if \<not> isArray data then (Inl NoAccountFound, w')
         else case getProp (index0 data) ''apikey'' of
           Inl e \<Rightarrow> (Inl e, w')
         | Inr k \<Rightarrow>
             if \<not> truthy k then (Inl NoAccountFound, w')
             else case getProp (index0 data) ''credits'' of
               Inl e \<Rightarrow> (Inl e, w')
             | Inr cr \<Rightarrow>
                 if isArray cr \<or> \<not> truthy cr then (Inl NoCreditsFound, w')
                 else case getProp cr ''total_credits_cents'' of
                   Inl e \<Rightarrow> (Inl e, w')
                 | Inr t \<Rightarrow> (Inr (emptyAppState\<lparr>apikey := k, credits := t\<rparr>), w'))"

text \<open>
  \<open>getAppStateFromDb\<close>: the read; when it throws, the insert of the account row with a
  newly generated key, the upsert of the credits row with 1000, and the read again.
\<close>

definition getAppStateFromDb ::
  "'s client \<Rightarrow> user \<Rightarrow> 's world \<Rightarrow> (error + AppState) \<times> 's world" where
  "getAppStateFromDb c usr w =
     (case getAppStateForUser c usr w of
        (Inr appState, w1) \<Rightarrow> (Inr appState, w1)
      | (Inl e, w1) \<Rightarrow>
          (let (key, src) = generateApiKey None (entropy w1);
               arow = \<lparr>acc_id = user_id usr, acc_apikey = key, acc_name = email usr\<rparr>;
               (s2, accountsErr) = insert_select c (store w1) arow;
               w2 = w1\<lparr>store := s2, entropy := src, trace := trace w1 @ [Insert arow]\<rparr>
           in case accountsErr of
                Some ae \<Rightarrow> (Inl ErrorCreatingAccount, w2)
              | None \<Rightarrow>
                  (let crow = \<lparr>cr_id = user_id usr, total_credits_cents = 1000\<rparr>;
                       (s3, creditsErr) = upsert c (store w2) crow;
                       w3 = w2\<lparr>store := s3, trace := trace w2 @ [Upsert crow]\<rparr>
                   in case creditsErr of
                        Some ce \<Rightarrow> (Inl ErrorCreatingCredits, w3)
                      | None \<Rightarrow> getAppStateForUser c usr w3)))"


section \<open>Account endpoint (account.ts, handler)\<close>

text \<open>
  \<open>req.query.slug\<close> is \<open>undefined\<close>, a string or an array of strings. The session and the
  user are the answers of the identity provider for the request.
\<close>

datatype slug = SlugUndefined | SlugString string | SlugArray "string list"

fun slugTruthy :: "slug \<Rightarrow> bool" where
  "slugTruthy SlugUndefined = False"
| "slugTruthy (SlugString s) = (s \<noteq> [])"
| "slugTruthy (SlugArray xs) = True"

fun slugIsApikey :: "slug \<Rightarrow> bool" where
  "slugIsApikey (SlugArray xs) = (length xs = 1 \<and> xs ! 0 = ''apikey'')"
| "slugIsApikey s = False"

record request =
  req_method :: "string option"
  query_slug :: slug
  session :: "string option"
  auth_user :: "user option"

datatype body =
    ErrorBody string string
  | StateBody AppState
  | ApikeyBody string
  | TextBody string
  | EmptyBody

text \<open>
  A response is the status set and what was sent: \<open>.json(v)\<close> sends \<open>v\<close>, \<open>res.end()\<close> sends
  an empty body, and \<open>res.status(404)\<close> alone sends nothing, so the response is never
  completed (\<open>sent = None\<close>).
\<close>

record response =
  status :: nat
  sent :: "body option"

text \<open>
  \<open>runMiddleware\<close> hands the middleware a continuation and wraps the call in a promise:
  the promise is rejected when the continuation is called with an Error, resolved when it
  is called with anything else, and stays pending when the middleware never calls it.
  The \<open>cors\<close> middleware, configured with the methods POST, GET and HEAD, answers an
  OPTIONS request (the preflight) itself, ending the response with 204 and an empty body
  without calling the continuation; for every other method it sets its headers and calls
  the continuation with no error. Method names arrive in upper case.
\<close>

datatype middleware = Ends response | Next | NextError

datatype promise = Resolved | Rejected | Pending response

definition preflight :: response where
  "preflight = \<lparr>status = 204, sent = Some EmptyBody\<rparr>"

definition cors :: "request \<Rightarrow> middleware" where
  "cors req = (if req_method req = Some ''OPTIONS'' then Ends preflight else Next)"

definition runMiddleware :: "request \<Rightarrow> (request \<Rightarrow> middleware) \<Rightarrow> promise" where
  "runMiddleware req fn =
     (case fn req of
        NextError \<Rightarrow> Rejected
      | Next \<Rightarrow> Resolved
      | Ends r \<Rightarrow> Pending r)"

definition not_allowed :: response where
  "not_allowed = \<lparr>status = 405, sent = Some (ErrorBody ''not_allowed'' ''Method not allowed'')\<rparr>"

definition not_authenticated :: response where
  "not_authenticated =
     \<lparr>status = 401, sent = Some (ErrorBody ''not_authenticated'' ''not authenticated'')\<rparr>"

definition server_error :: response where
  "server_error = \<lparr>status = 500, sent = Some (ErrorBody ''server_error'' ''something went wrong'')\<rparr>"

definition not_found :: response where
  "not_found = \<lparr>status = 404, sent = None\<rparr>"

text \<open>
  When the awaited promise is rejected the handler throws, and the framework answers for
  it. When it stays pending the handler goes no further, and the response is the one the
  middleware ended.
\<close>

definition uncaught :: response where
  "uncaught = \<lparr>status = 500, sent = Some (TextBody ''Internal Server Error'')\<rparr>"

definition handler :: "'s client \<Rightarrow> request \<Rightarrow> 's world \<Rightarrow> response \<times> 's world" where
  "handler c req w =
     (case runMiddleware req cors of
        Pending r \<Rightarrow> (r, w)
      | Rejected \<Rightarrow> (uncaught, w)
      | Resolved \<Rightarrow>
     (if (case req_method req of None \<Rightarrow> [] | Some m \<Rightarrow> m) \<notin> set [''POST'', ''GET'']
      then (not_allowed, w)
      else case session req of
        None \<Rightarrow> (not_authenticated, w)
      | Some sess \<Rightarrow>
          (case auth_user req of
             None \<Rightarrow> (not_authenticated, w)
           | Some usr \<Rightarrow>
               if req_method req = Some ''GET'' \<and> \<not> slugTruthy (query_slug req) then
                 (case getAppStateFromDb c usr w of
                    (Inr appState, w') \<Rightarrow> (\<lparr>status = 200, sent = Some (StateBody appState)\<rparr>, w')
                  | (Inl e, w') \<Rightarrow> (server_error, w'))
               else if req_method req = Some ''POST'' \<and> slugTruthy (query_slug req)
                       \<and> slugIsApikey (query_slug req) then
                 (let (k, src) = generateApiKey None (entropy w)
                  in (\<lparr>status = 200, sent = Some (ApikeyBody k)\<rparr>, w\<lparr>entropy := src\<rparr>))
               else (not_found, w))))"


section \<open>Account store and credit ledger\<close>

text \<open>
  Modelled from the spec: the Account Store and the Credit Ledger of sections 4.2 and
  4.3. The database schema and the store client are not among the sources, so the two
  keyed relations are modelled as the spec words them: \<open>create\<close> is a
  uniqueness-enforcing insert that reports \<open>AlreadyExists\<close> and leaves the relation as it
  is, and \<open>createIfAbsent\<close> is the upsert keyed on the principal's id (with the
  \<open>ignoreDuplicates\<close> option of the call: a duplicate is ignored when it is set and
  replaces the stored row otherwise). Relations are lists of rows, so that a duplicate
  would be visible.

  A read of the accounts relation is a query: the rows whose id is the principal's, each
  answered with its \<open>apikey\<close> column and, when the query embeds it, the principal's ledger
  entry as \<open>credits\<close>; a query that ends in \<open>.single()\<close> hands the one row as an object, or
  \<open>null\<close> and an error when the rows are not exactly one, and a query without it hands
  the list of rows. \<open>findByPrincipal\<close> is the query the source issues,
  \<open>select("apikey").eq("id", id).single()\<close>: the \<open>apikey\<close> column only, one object.
\<close>

record db =
  accounts :: "account_row list"
  ledger :: "credits_row list"

definition accountJson :: "bool \<Rightarrow> db \<Rightarrow> account_row \<Rightarrow> json" where
  "accountJson embedCredits d a =
     JObj ((''apikey'', JStr (acc_apikey a)) #
           (if embedCredits
            then [(''credits'',
                   case find (\<lambda>r. cr_id r = acc_id a) (ledger d) of
                     None \<Rightarrow> JNull
                   | Some cr \<Rightarrow> JObj [(''total_credits_cents'', JNum (total_credits_cents cr))])]
            else []))"

definition selectAccounts ::
  "bool \<Rightarrow> bool \<Rightarrow> db \<Rightarrow> string \<Rightarrow> json \<times> store_error option" where
  "selectAccounts embedCredits single d i =
     (let rows = map (accountJson embedCredits d) (filter (\<lambda>r. acc_id r = i) (accounts d))
      in if single
         then (case rows of
                 [r] \<Rightarrow> (r, None)
               | _ \<Rightarrow> (JNull, Some NotFound))
         else (JArr rows, None))"

definition findByPrincipal :: "db \<Rightarrow> string \<Rightarrow> json \<times> store_error option" where
  "findByPrincipal d i = selectAccounts False True d i"

definition create :: "db \<Rightarrow> account_row \<Rightarrow> db \<times> store_error option" where
  "create d row =
     (if \<exists>r \<in> set (accounts d). acc_id r = acc_id row then (d, Some AlreadyExists)
      else (d\<lparr>accounts := accounts d @ [row]\<rparr>, None))"

definition upsertRows :: "bool \<Rightarrow> credits_row \<Rightarrow> credits_row list \<Rightarrow> credits_row list" where
  "upsertRows ignoreDuplicates row rows =
     (if \<exists>r \<in> set rows. cr_id r = cr_id row
      then (if ignoreDuplicates then rows
            else map (\<lambda>r. if cr_id r = cr_id row then row else r) rows)
      else rows @ [row])"

definition createIfAbsent :: "db \<Rightarrow> credits_row \<Rightarrow> db \<times> store_error option" where
  "createIfAbsent d row = (d\<lparr>ledger := upsertRows True row (ledger d)\<rparr>, None)"

definition storeClient :: "db client" where
  "storeClient =
     \<lparr>select_single = findByPrincipal, insert_select = create, upsert = createIfAbsent\<rparr>"


definition accountsOf :: "db \<Rightarrow> string \<Rightarrow> account_row list" where
  "accountsOf d i = filter (\<lambda>r. acc_id r = i) (accounts d)"

definition ledgerOf :: "db \<Rightarrow> string \<Rightarrow> credits_row list" where
  "ledgerOf d i = filter (\<lambda>r. cr_id r = i) (ledger d)"


section \<open>Client application context (AppContext.tsx)\<close>

text \<open>
  The provider's four state cells. \<open>fetch\<close> and \<open>response.json()\<close> either throw or yield
  the parsed body.
\<close>

record 'a provider =
  appState :: AppState
  promptLoadingCell :: bool
  accountLoadingCell :: bool
  attemptsCell :: "'a list"

definition initState :: AppState where
  "initState =
     \<lparr>apikey = JStr [], credits = JNum 0, promptLoading = Some False,
      accountLoading = Some False,
      stats = Some \<lparr>last24h = \<lparr>attempts = 0, breaches = 0\<rparr>,
                    last7d = \<lparr>attempts = 0, breaches = 0\<rparr>,
                    alltime = \<lparr>attempts = 0, breaches = 0\<rparr>\<rparr>\<rparr>"

datatype fetch_result = FetchThrows | FetchJson json

definition setPromptLoading :: "bool \<Rightarrow> 'a provider \<Rightarrow> 'a provider" where
  "setPromptLoading b st = st\<lparr>promptLoadingCell := b\<rparr>"

definition setApikey :: "json \<Rightarrow> 'a provider \<Rightarrow> 'a provider" where
  "setApikey k st = st\<lparr>appState := (appState st)\<lparr>apikey := k\<rparr>\<rparr>"

definition setCredits :: "json \<Rightarrow> 'a provider \<Rightarrow> 'a provider" where
  "setCredits n st = st\<lparr>appState := (appState st)\<lparr>credits := n\<rparr>\<rparr>"

definition setStats :: "stats option \<Rightarrow> 'a provider \<Rightarrow> 'a provider" where
  "setStats v st = st\<lparr>appState := (appState st)\<lparr>stats := v\<rparr>\<rparr>"

definition refreshApikey :: "fetch_result \<Rightarrow> 'a provider \<Rightarrow> 'a provider" where
  "refreshApikey r st =
     (let st1 = setPromptLoading True st;
          st2 = (case r of
                   FetchThrows \<Rightarrow> st1
                 | FetchJson data \<Rightarrow>
                     (case getProp data ''apikey'' of
                        Inl e \<Rightarrow> st1
                      | Inr k \<Rightarrow> setApikey k st1))
      in setPromptLoading False st2)"


section \<open>Example principal and stores\<close>

text \<open>Concrete inputs at which the theorems below are instantiated.\<close>

definition entropy0 :: entropy where
  "entropy0 = (\<lambda>i. word_of_nat i)"

definition p1 :: user where
  "p1 = \<lparr>user_id = ''p1'', email = Some ''p1@example.org''\<rparr>"

definition db0 :: db where
  "db0 = \<lparr>accounts = [], ledger = []\<rparr>"

definition dbProvisioned :: db where
  "dbProvisioned =
     \<lparr>accounts = [\<lparr>acc_id = ''p1'', acc_apikey = ''00ff'', acc_name = None\<rparr>],
      ledger = [\<lparr>cr_id = ''p1'', total_credits_cents = 250\<rparr>]\<rparr>"

definition dbAccountOnly :: db where
  "dbAccountOnly =
     \<lparr>accounts = [\<lparr>acc_id = ''p1'', acc_apikey = ''00ff'', acc_name = None\<rparr>],
      ledger = []\<rparr>"

definition worldOf :: "db \<Rightarrow> db world" where
  "worldOf d = \<lparr>store = d, entropy = entropy0, trace = []\<rparr>"


section \<open>The credential is the hexadecimal encoding of the bytes drawn\<close>

lemma hexDigit_lower: "hexDigit d \<in> set ''0123456789abcdef''"
  unfolding hexDigit_def by (rule nth_mem) simp

lemma length_hexByte: "length (hexByte b) = 2"
  by (simp add: hexByte_def)

lemma length_toHex: "length (toHex bs) = 2 * length bs"
  by (induction bs) (simp_all add: toHex_def length_hexByte)

lemma lowerHex_toHex: "lowerHex (toHex bs)"
  by (induction bs)
     (simp_all add: toHex_def lowerHex_def hexByte_def hexDigit_lower del: set_simps)

lemma upt_16: "[0..<16] = [0, 1, 2, 3, 4, 5, 6, 7, 8, 9, 10, 11, 12, 13, 14, 15 :: nat]"
  by code_simp

lemma hexVal_hexDigit: "d < 16 \<Longrightarrow> hexVal (hexDigit d) = Some d"
proof -
  assume "d < 16"
  then have "d \<in> {0, 1, 2, 3, 4, 5, 6, 7, 8, 9, 10, 11, 12, 13, 14, 15}"
    by simp arith
  then show ?thesis
    by (auto simp: hexVal_def hexDigit_def upt_16)
qed

lemma byte_nibbles: "word_of_nat (16 * (unat b div 16) + unat b mod 16) = (b :: 8 word)"
  by (simp add: mult_div_mod_eq)

lemma unat_byte_div: "unat (b :: 8 word) div 16 < 16"
proof -
  have "unat b < 256"
    using unsigned_less [of b] by simp
  then show ?thesis by simp
qed

lemma fromHex_toHex: "fromHex (toHex bs) = Some bs"
proof (induction bs)
  case Nil
  show ?case by (simp add: toHex_def)
next
  case (Cons b bs)
  have "toHex (b # bs) = hexDigit (unat b div 16) # hexDigit (unat b mod 16) # toHex bs"
    by (simp add: toHex_def hexByte_def)
  then show ?case
    using Cons by (simp add: hexVal_hexDigit unat_byte_div byte_nibbles)
qed

lemma generateApiKey_eq:
  "generateApiKey len src =
     (toHex (map src [0..<(case len of None \<Rightarrow> 64 | Some l \<Rightarrow> l)]),
      \<lambda>i. src (i + (case len of None \<Rightarrow> 64 | Some l \<Rightarrow> l)))"
  by (simp add: generateApiKey_def randomBytes_def Let_def)

text \<open>
  Claim C5. For every byte length \<open>n\<close>, \<open>generateApiKey\<close> returns a string of \<open>2 * n\<close>
  characters, each a lowercase hexadecimal digit, that decodes to the \<open>n\<close> bytes drawn
  from the random source; without an argument the length is 64 bytes and the credential
  has 128 characters.
\<close>

theorem generateApiKey_hex_encoding:
  "(length (fst (generateApiKey (Some n) src)) = 2 * n
      \<and> lowerHex (fst (generateApiKey (Some n) src))
      \<and> fromHex (fst (generateApiKey (Some n) src)) = Some (map src [0..<n]))
   \<and> (length (fst (generateApiKey None src)) = 128
      \<and> lowerHex (fst (generateApiKey None src))
      \<and> fromHex (fst (generateApiKey None src)) = Some (map src [0..<64]))"
  by (simp add: generateApiKey_eq length_toHex lowerHex_toHex fromHex_toHex)


section \<open>The read-or-create protocol\<close>

lemma getAppStateForUser_snd:
  "snd (getAppStateForUser c usr w) = w\<lparr>trace := trace w @ [Select (user_id usr)]\<rparr>"
  by (simp add: getAppStateForUser_def Let_def split: prod.splits sum.splits)

lemma getAppStateForUser_not_array:
  "\<not> isArray (fst (select_single c (store w) (user_id usr))) \<Longrightarrow>
     fst (getAppStateForUser c usr w) = Inl NoAccountFound"
  by (cases "select_single c (store w) (user_id usr)") (simp add: getAppStateForUser_def)

lemma findByPrincipal_not_array: "\<not> isArray (fst (findByPrincipal d i))"
  by (auto simp: findByPrincipal_def selectAccounts_def accountJson_def Let_def
                 map_eq_Cons_conv split: list.splits)

lemma getAppStateForUser_storeClient:
  "fst (getAppStateForUser storeClient usr w) = Inl NoAccountFound"
  by (rule getAppStateForUser_not_array) (simp add: storeClient_def findByPrincipal_not_array)

lemma getAppStateFromDb_fast:
  "getAppStateForUser c usr w = (Inr st, w1) \<Longrightarrow> getAppStateFromDb c usr w = (Inr st, w1)"
  by (simp add: getAppStateFromDb_def)

lemma getAppStateFromDb_create:
  assumes "fst (getAppStateForUser c usr w) = Inl e"
    and "arow = \<lparr>acc_id = user_id usr, acc_apikey = fst (generateApiKey None (entropy w)),
                  acc_name = email usr\<rparr>"
    and "insert_select c (store w) arow = (s2, ae)"
    and "crow = \<lparr>cr_id = user_id usr, total_credits_cents = 1000\<rparr>"
    and "upsert c s2 crow = (s3, ce)"
  shows "getAppStateFromDb c usr w =
     (if ae \<noteq> None then
        (Inl ErrorCreatingAccount,
         w\<lparr>store := s2, entropy := snd (generateApiKey None (entropy w)),
           trace := trace w @ [Select (user_id usr), Insert arow]\<rparr>)
      else if ce \<noteq> None then
        (Inl ErrorCreatingCredits,
         w\<lparr>entropy := snd (generateApiKey None (entropy w)), store := s3,
           trace := trace w @ [Select (user_id usr), Insert arow, Upsert crow]\<rparr>)
      else getAppStateForUser c usr
         (w\<lparr>entropy := snd (generateApiKey None (entropy w)), store := s3,
            trace := trace w @ [Select (user_id usr), Insert arow, Upsert crow]\<rparr>))"
proof -
  obtain w1 where g: "getAppStateForUser c usr w = (Inl e, w1)"
    using assms(1) by (cases "getAppStateForUser c usr w") simp
  have w1: "w1 = w\<lparr>trace := trace w @ [Select (user_id usr)]\<rparr>"
    using getAppStateForUser_snd [of c usr w] g by simp
  obtain key src where k: "generateApiKey None (entropy w) = (key, src)"
    by (cases "generateApiKey None (entropy w)")
  show ?thesis
    using assms(2-5) k
    by (cases ae; cases ce; simp add: getAppStateFromDb_def g w1 Let_def)
qed



lemma filter_single_mem: "filter P xs = [a] \<Longrightarrow> a \<in> set xs \<and> P a"
proof -
  assume "filter P xs = [a]"
  then have "a \<in> set (filter P xs)" by simp
  then show ?thesis by simp
qed

text \<open>
  Claim C1, on the code. The principal is provisioned: the store holds one account row and
  one ledger entry for it. The read the source issues hands that row as one object with
  the \<open>apikey\<close> column, which is not an array, so \<open>getAppStateForUser\<close> throws "No account
  found"; \<open>getAppStateFromDb\<close> then attempts the insert, which reports the conflict, and
  fails with "Error creating account". The stored pair is not returned and the call does
  not stop at the read.
\<close>

theorem getAppStateFromDb_provisioned_fails:
  assumes "accountsOf (store w) (user_id usr) = [a]"
    and "ledgerOf (store w) (user_id usr) = [l]"
    and "arow = \<lparr>acc_id = user_id usr, acc_apikey = fst (generateApiKey None (entropy w)),
                  acc_name = email usr\<rparr>"
  shows "select_single storeClient (store w) (user_id usr) =
           (JObj [(''apikey'', JStr (acc_apikey a))], None)
       \<and> fst (getAppStateForUser storeClient usr w) = Inl NoAccountFound
       \<and> fst (getAppStateFromDb storeClient usr w) = Inl ErrorCreatingAccount
       \<and> trace (snd (getAppStateFromDb storeClient usr w)) =
           trace w @ [Select (user_id usr), Insert arow]
       \<and> store (snd (getAppStateFromDb storeClient usr w)) = store w"
proof -
  have rd: "select_single storeClient (store w) (user_id usr) =
              (JObj [(''apikey'', JStr (acc_apikey a))], None)"
    using assms(1)
    by (simp add: storeClient_def findByPrincipal_def selectAccounts_def accountJson_def
                  accountsOf_def)
  have "a \<in> set (accounts (store w)) \<and> acc_id a = user_id usr"
    using assms(1) unfolding accountsOf_def by (rule filter_single_mem)
  then have ins: "insert_select storeClient (store w) arow = (store w, Some AlreadyExists)"
    using assms(3) by (auto simp: storeClient_def create_def)
  obtain s3 ce where up: "upsert storeClient (store w)
      \<lparr>cr_id = user_id usr, total_credits_cents = 1000\<rparr> = (s3, ce)"
    by (cases "upsert storeClient (store w) \<lparr>cr_id = user_id usr, total_credits_cents = 1000\<rparr>")
  have "getAppStateFromDb storeClient usr w =
          (Inl ErrorCreatingAccount,
           w\<lparr>store := store w, entropy := snd (generateApiKey None (entropy w)),
             trace := trace w @ [Select (user_id usr), Insert arow]\<rparr>)"
    using getAppStateFromDb_create [OF getAppStateForUser_storeClient assms(3) ins refl up]
    by simp
  then show ?thesis
    using rd getAppStateForUser_storeClient [of usr w] by simp
qed

theorem getAppStateFromDb_provisioned_fails_witness:
  "accountsOf (store (worldOf dbProvisioned)) (user_id p1) =
     [\<lparr>acc_id = ''p1'', acc_apikey = ''00ff'', acc_name = None\<rparr>]
   \<and> ledgerOf (store (worldOf dbProvisioned)) (user_id p1) =
     [\<lparr>cr_id = ''p1'', total_credits_cents = 250\<rparr>]
   \<and> select_single storeClient dbProvisioned ''p1'' = (JObj [(''apikey'', JStr ''00ff'')], None)
   \<and> fst (getAppStateFromDb storeClient p1 (worldOf dbProvisioned)) = Inl ErrorCreatingAccount
   \<and> trace (snd (getAppStateFromDb storeClient p1 (worldOf dbProvisioned))) =
       [Select ''p1'',
        Insert \<lparr>acc_id = ''p1'', acc_apikey = fst (generateApiKey None entropy0),
                acc_name = Some ''p1@example.org''\<rparr>]"
proof -
  have h1: "accountsOf (store (worldOf dbProvisioned)) (user_id p1) =
              [\<lparr>acc_id = ''p1'', acc_apikey = ''00ff'', acc_name = None\<rparr>]"
    by (simp add: accountsOf_def worldOf_def dbProvisioned_def p1_def)
  have h2: "ledgerOf (store (worldOf dbProvisioned)) (user_id p1) =
              [\<lparr>cr_id = ''p1'', total_credits_cents = 250\<rparr>]"
    by (simp add: ledgerOf_def worldOf_def dbProvisioned_def p1_def)
  show ?thesis
    using getAppStateFromDb_provisioned_fails [OF h1 h2 refl] h1 h2
    by (simp add: worldOf_def p1_def)
qed



text \<open>
  Claim C3, as stated, fails. The principal \<open>p1\<close> has an account row and no ledger entry:
  the first read throws, the insert reports \<open>AlreadyExists\<close>, and the call fails with
  "Error creating account" after the read and the insert only; the ledger upsert and the
  second read are never made.
\<close>

theorem getAppStateFromDb_conflict_counterexample:
  "fst (getAppStateForUser storeClient p1 (worldOf dbAccountOnly)) = Inl NoAccountFound
   \<and> snd (insert_select storeClient dbAccountOnly
            \<lparr>acc_id = ''p1'', acc_apikey = fst (generateApiKey None entropy0),
             acc_name = Some ''p1@example.org''\<rparr>) = Some AlreadyExists
   \<and> fst (getAppStateFromDb storeClient p1 (worldOf dbAccountOnly)) = Inl ErrorCreatingAccount
   \<and> trace (snd (getAppStateFromDb storeClient p1 (worldOf dbAccountOnly))) =
       [Select ''p1'',
        Insert \<lparr>acc_id = ''p1'', acc_apikey = fst (generateApiKey None entropy0),
                acc_name = Some ''p1@example.org''\<rparr>]"
proof -
  obtain key src where k: "generateApiKey None entropy0 = (key, src)"
    by (cases "generateApiKey None entropy0")
  show ?thesis
    by (simp add: k getAppStateFromDb_def getAppStateForUser_def storeClient_def
                  findByPrincipal_def selectAccounts_def accountJson_def create_def
                  dbAccountOnly_def worldOf_def p1_def)
qed

text \<open>
  Claim C3, amended. \<open>getAppStateFromDb\<close> fails exactly when the first read fails and then
  the account insert reports an error, or the ledger upsert reports an error, or the
  second read fails. Any error of the account insert, a conflict included, is surfaced as
  "Error creating account", with no ledger step and no second read.
\<close>

theorem getAppStateFromDb_failure:
  assumes "arow = \<lparr>acc_id = user_id usr, acc_apikey = fst (generateApiKey None (entropy w)),
                    acc_name = email usr\<rparr>"
    and "insert_select c (store w) arow = (s2, ae)"
    and "crow = \<lparr>cr_id = user_id usr, total_credits_cents = 1000\<rparr>"
    and "upsert c s2 crow = (s3, ce)"
    and "w3 = w\<lparr>entropy := snd (generateApiKey None (entropy w)), store := s3,
                 trace := trace w @ [Select (user_id usr), Insert arow, Upsert crow]\<rparr>"
  shows "(isl (fst (getAppStateFromDb c usr w)) \<longleftrightarrow>
            isl (fst (getAppStateForUser c usr w))
          \<and> (ae \<noteq> None \<or> ce \<noteq> None \<or> isl (fst (getAppStateForUser c usr w3))))
       \<and> (isl (fst (getAppStateForUser c usr w)) \<and> ae \<noteq> None \<longrightarrow>
            fst (getAppStateFromDb c usr w) = Inl ErrorCreatingAccount
          \<and> trace (snd (getAppStateFromDb c usr w)) =
              trace w @ [Select (user_id usr), Insert arow])"
proof (cases "fst (getAppStateForUser c usr w)")
  case (Inl e)
  note eq = getAppStateFromDb_create [OF Inl assms(1-4)]
  show ?thesis
    using Inl eq assms(5) by (cases ae; cases ce; simp)
next
  case (Inr st)
  then obtain w1 where "getAppStateForUser c usr w = (Inr st, w1)"
    by (cases "getAppStateForUser c usr w") simp
  then have "getAppStateFromDb c usr w = (Inr st, w1)"
    by (rule getAppStateFromDb_fast)
  then show ?thesis
    using Inr by simp
qed

theorem getAppStateFromDb_failure_witness:
  "isl (fst (getAppStateForUser storeClient p1 (worldOf dbAccountOnly)))
   \<and> snd (insert_select storeClient (store (worldOf dbAccountOnly))
            \<lparr>acc_id = user_id p1,
             acc_apikey = fst (generateApiKey None (entropy (worldOf dbAccountOnly))),
             acc_name = email p1\<rparr>) \<noteq> None
   \<and> isl (fst (getAppStateFromDb storeClient p1 (worldOf dbAccountOnly)))
   \<and> fst (getAppStateFromDb storeClient p1 (worldOf dbAccountOnly)) = Inl ErrorCreatingAccount"
proof -
  let ?arow = "\<lparr>acc_id = user_id p1,
                 acc_apikey = fst (generateApiKey None (entropy (worldOf dbAccountOnly))),
                 acc_name = email p1\<rparr>"
  let ?crow = "\<lparr>cr_id = user_id p1, total_credits_cents = 1000\<rparr>"
  have h0: "isl (fst (getAppStateForUser storeClient p1 (worldOf dbAccountOnly)))"
    by (simp add: getAppStateForUser_storeClient)
  have h2: "insert_select storeClient (store (worldOf dbAccountOnly)) ?arow =
              (dbAccountOnly, Some AlreadyExists)"
    by (simp add: storeClient_def create_def dbAccountOnly_def worldOf_def p1_def)
  have h4: "upsert storeClient dbAccountOnly ?crow =
              (dbAccountOnly\<lparr>ledger := [?crow]\<rparr>, None)"
    by (simp add: storeClient_def createIfAbsent_def upsertRows_def dbAccountOnly_def)
  show ?thesis
    using getAppStateFromDb_failure [OF refl h2 refl h4 refl] h0 h2 by simp
qed


section \<open>First access on the modelled store\<close>

text \<open>
  Claim C4, on the code. For a principal with no account row and no ledger entry,
  \<open>getAppStateFromDb\<close> makes both writes, so that the store holds exactly one account row
  for the principal (with the generated key) and exactly one ledger entry with the seed
  1000; the read that follows hands one object again, and the call fails with "No account
  found" where the state with balance 1000 was to be returned.
\<close>

theorem getAppStateFromDb_lazy_creation_fails:
  assumes "accountsOf (store w) (user_id usr) = []"
    and "ledgerOf (store w) (user_id usr) = []"
    and "arow = \<lparr>acc_id = user_id usr, acc_apikey = fst (generateApiKey None (entropy w)),
                  acc_name = email usr\<rparr>"
    and "crow = \<lparr>cr_id = user_id usr, total_credits_cents = 1000\<rparr>"
  shows "fst (getAppStateFromDb storeClient usr w) = Inl NoAccountFound
       \<and> accountsOf (store (snd (getAppStateFromDb storeClient usr w))) (user_id usr) = [arow]
       \<and> ledgerOf (store (snd (getAppStateFromDb storeClient usr w))) (user_id usr) = [crow]
       \<and> trace (snd (getAppStateFromDb storeClient usr w)) =
           trace w @ [Select (user_id usr), Insert arow, Upsert crow, Select (user_id usr)]"
proof -
  let ?d = "store w"
  let ?i = "user_id usr"
  let ?s2 = "?d\<lparr>accounts := accounts ?d @ [arow]\<rparr>"
  let ?s3 = "?d\<lparr>accounts := accounts ?d @ [arow], ledger := ledger ?d @ [crow]\<rparr>"
  let ?w3 = "w\<lparr>entropy := snd (generateApiKey None (entropy w)), store := ?s3,
               trace := trace w @ [Select ?i, Insert arow, Upsert crow]\<rparr>"
  have na: "\<forall>r \<in> set (accounts ?d). acc_id r \<noteq> ?i"
    using assms(1) by (simp add: accountsOf_def filter_empty_conv)
  have nl: "\<forall>r \<in> set (ledger ?d). cr_id r \<noteq> ?i"
    using assms(2) by (simp add: ledgerOf_def filter_empty_conv)
  have h3: "insert_select storeClient (store w) arow = (?s2, None)"
    using na assms(3) by (auto simp: storeClient_def create_def)
  have h5: "upsert storeClient ?s2 crow = (?s3, None)"
    using nl assms(4) by (auto simp: storeClient_def createIfAbsent_def upsertRows_def)
  have eq: "getAppStateFromDb storeClient usr w = getAppStateForUser storeClient usr ?w3"
    using getAppStateFromDb_create [OF getAppStateForUser_storeClient assms(3) h3 assms(4) h5]
    by simp
  have s: "snd (getAppStateFromDb storeClient usr w) =
             ?w3\<lparr>trace := trace ?w3 @ [Select ?i]\<rparr>"
    using eq getAppStateForUser_snd [of storeClient usr ?w3] by simp
  have a: "accountsOf ?s3 ?i = [arow]"
    using assms(1,3) by (simp add: accountsOf_def)
  have l: "ledgerOf ?s3 ?i = [crow]"
    using assms(2,4) by (simp add: ledgerOf_def)
  show ?thesis
    using eq s a l getAppStateForUser_storeClient [of usr ?w3] by simp
qed

theorem getAppStateFromDb_lazy_creation_fails_witness:
  "accountsOf (store (worldOf db0)) (user_id p1) = []
   \<and> ledgerOf (store (worldOf db0)) (user_id p1) = []
   \<and> fst (getAppStateFromDb storeClient p1 (worldOf db0)) = Inl NoAccountFound
   \<and> accountsOf (store (snd (getAppStateFromDb storeClient p1 (worldOf db0)))) ''p1'' =
       [\<lparr>acc_id = ''p1'', acc_apikey = fst (generateApiKey None entropy0),
         acc_name = Some ''p1@example.org''\<rparr>]
   \<and> ledgerOf (store (snd (getAppStateFromDb storeClient p1 (worldOf db0)))) ''p1'' =
       [\<lparr>cr_id = ''p1'', total_credits_cents = 1000\<rparr>]"
proof -
  have h1: "accountsOf (store (worldOf db0)) (user_id p1) = []"
    by (simp add: accountsOf_def worldOf_def db0_def)
  have h2: "ledgerOf (store (worldOf db0)) (user_id p1) = []"
    by (simp add: ledgerOf_def worldOf_def db0_def)
  show ?thesis
    using getAppStateFromDb_lazy_creation_fails [OF h1 h2 refl refl] h1 h2
    by (simp add: worldOf_def p1_def)
qed


section \<open>The ledger upsert\<close>

lemma upsertRows_ignore_twice:
  "upsertRows True row (upsertRows True row rows) = upsertRows True row rows"
  by (simp add: upsertRows_def)

text \<open>
  Claim C6. The ledger creation, the upsert on the principal's id with duplicates ignored,
  never reports an error; made a second time it leaves the store as the first left it;
  when an entry for the principal exists the store is returned as it was, so the stored
  balance is not reassigned; no ledger row is lost and the accounts are untouched.
\<close>

theorem createIfAbsent_idempotent:
  "snd (upsert storeClient d row) = None
   \<and> upsert storeClient (fst (upsert storeClient d row)) row = upsert storeClient d row
   \<and> ((\<exists>r \<in> set (ledger d). cr_id r = cr_id row) \<longrightarrow> upsert storeClient d row = (d, None))
   \<and> set (ledger d) \<subseteq> set (ledger (fst (upsert storeClient d row)))
   \<and> accounts (fst (upsert storeClient d row)) = accounts d"
  by (auto simp: storeClient_def createIfAbsent_def upsertRows_def)

theorem createIfAbsent_idempotent_witness:
  "(\<exists>r \<in> set (ledger dbProvisioned). cr_id r = ''p1'')
   \<and> upsert storeClient dbProvisioned \<lparr>cr_id = ''p1'', total_credits_cents = 1000\<rparr>
       = (dbProvisioned, None)
   \<and> ledger (fst (upsert storeClient dbProvisioned \<lparr>cr_id = ''p1'', total_credits_cents = 1000\<rparr>))
       = [\<lparr>cr_id = ''p1'', total_credits_cents = 250\<rparr>]"
proof -
  have h: "\<exists>r \<in> set (ledger dbProvisioned). cr_id r = cr_id \<lparr>cr_id = ''p1'', total_credits_cents = 1000\<rparr>"
    by (simp add: dbProvisioned_def)
  show ?thesis
    using createIfAbsent_idempotent [of dbProvisioned "\<lparr>cr_id = ''p1'', total_credits_cents = 1000\<rparr>"] h
    by (simp add: dbProvisioned_def)
qed


section \<open>The endpoint\<close>

lemma runMiddleware_cors:
  "runMiddleware req cors =
     (if req_method req = Some ''OPTIONS'' then Pending preflight else Resolved)"
  by (simp add: runMiddleware_def cors_def)

lemma handler_preflight:
  "req_method req = Some ''OPTIONS'' \<Longrightarrow> handler c req w = (preflight, w)"
  by (simp add: handler_def runMiddleware_cors)

lemma handler_method_not_allowed:
  "req_method req \<noteq> Some ''GET'' \<Longrightarrow> req_method req \<noteq> Some ''POST'' \<Longrightarrow>
   req_method req \<noteq> Some ''OPTIONS'' \<Longrightarrow> handler c req w = (not_allowed, w)"
  by (cases "req_method req") (simp_all add: handler_def runMiddleware_cors)

lemma handler_no_principal:
  "req_method req = Some ''GET'' \<or> req_method req = Some ''POST'' \<Longrightarrow>
   session req = None \<or> auth_user req = None \<Longrightarrow>
   handler c req w = (not_authenticated, w)"
  by (cases "session req"; cases "auth_user req")
     (auto simp add: handler_def runMiddleware_cors)

text \<open>
  Claim C7, as stated, fails. A DELETE request without a session is answered by the method
  check, which comes first: 405 "not_allowed", not the 401 of an unauthenticated request.
\<close>

theorem handler_unauthenticated_counterexample:
  "session \<lparr>req_method = Some ''DELETE'', query_slug = SlugUndefined, session = None,
            auth_user = None\<rparr> = None
   \<and> fst (handler storeClient
            \<lparr>req_method = Some ''DELETE'', query_slug = SlugUndefined, session = None,
             auth_user = None\<rparr> (worldOf db0)) = not_allowed
   \<and> status not_allowed = 405
   \<and> status not_authenticated = 401"
  by (simp add: handler_def runMiddleware_cors not_allowed_def not_authenticated_def)

text \<open>
  Claim C7, amended. For every request without a session or without a user, the handler
  makes no store call and leaves the store, the random supply and the log as they were;
  when the method is GET or POST the answer is 401 "not_authenticated".
\<close>

theorem handler_unauthenticated:
  assumes "session req = None \<or> auth_user req = None"
  shows "snd (handler c req w) = w
       \<and> (req_method req = Some ''GET'' \<or> req_method req = Some ''POST'' \<longrightarrow>
            handler c req w = (not_authenticated, w))"
proof -
  consider (get_post) "req_method req = Some ''GET'' \<or> req_method req = Some ''POST''"
    | (options) "req_method req = Some ''OPTIONS''"
    | (other) "req_method req \<noteq> Some ''GET''" "req_method req \<noteq> Some ''POST''"
        "req_method req \<noteq> Some ''OPTIONS''"
    by blast
  then show ?thesis
  proof cases
    case get_post
    then show ?thesis
      using handler_no_principal [OF get_post assms, of c w] by simp
  next
    case options
    then show ?thesis
      by (simp add: handler_preflight)
  next
    case other
    then show ?thesis
      by (simp add: handler_method_not_allowed)
  qed
qed

theorem handler_unauthenticated_witness:
  "snd (handler storeClient
          \<lparr>req_method = Some ''GET'', query_slug = SlugUndefined, session = Some ''s'',
           auth_user = None\<rparr> (worldOf db0)) = worldOf db0
   \<and> fst (handler storeClient
          \<lparr>req_method = Some ''GET'', query_slug = SlugUndefined, session = Some ''s'',
           auth_user = None\<rparr> (worldOf db0)) = not_authenticated"
  using handler_unauthenticated
          [of "\<lparr>req_method = Some ''GET'', query_slug = SlugUndefined, session = Some ''s'',
                auth_user = None\<rparr>" storeClient "worldOf db0"]
  by simp

text \<open>
  Claim C8. For every authenticated POST whose slug is exactly \<open>["apikey"]\<close>, the handler
  answers 200 with a credential that is the 128-character lowercase hexadecimal encoding
  of the next 64 bytes of the random supply; the supply moves on by 64 bytes, so a
  following request is answered from the bytes after them; the store is unchanged and no
  store call is logged.
\<close>

theorem handler_issues_credential:
  assumes "session req = Some sess" and "auth_user req = Some usr"
    and "req_method req = Some ''POST''" and "query_slug req = SlugArray [''apikey'']"
  shows "handler c req w =
           (\<lparr>status = 200, sent = Some (ApikeyBody (toHex (map (entropy w) [0..<64])))\<rparr>,
            w\<lparr>entropy := \<lambda>i. entropy w (i + 64)\<rparr>)
       \<and> store (snd (handler c req w)) = store w
       \<and> trace (snd (handler c req w)) = trace w
       \<and> fst (handler c req (snd (handler c req w))) =
           \<lparr>status = 200, sent = Some (ApikeyBody (toHex (map (\<lambda>i. entropy w (i + 64)) [0..<64])))\<rparr>
       \<and> length (toHex (map (entropy w) [0..<64])) = 128
       \<and> lowerHex (toHex (map (entropy w) [0..<64]))"
  using assms
  by (simp add: handler_def runMiddleware_cors generateApiKey_eq length_toHex lowerHex_toHex)

theorem handler_issues_credential_witness:
  "handler storeClient
      \<lparr>req_method = Some ''POST'', query_slug = SlugArray [''apikey''], session = Some ''s'',
       auth_user = Some p1\<rparr> (worldOf dbProvisioned) =
     (\<lparr>status = 200, sent = Some (ApikeyBody (toHex (map entropy0 [0..<64])))\<rparr>,
      \<lparr>store = dbProvisioned, entropy = \<lambda>i. entropy0 (i + 64), trace = []\<rparr>)"
  using handler_issues_credential
          [of "\<lparr>req_method = Some ''POST'', query_slug = SlugArray [''apikey''],
                session = Some ''s'', auth_user = Some p1\<rparr>" "''s''" p1 storeClient
              "worldOf dbProvisioned"]
  by (simp add: worldOf_def)

text \<open>
  Claim C9, as stated, fails, at two requests. A GET request with the unsupported path
  \<open>["foo"]\<close> and no session is answered 401 "not_authenticated", not with the not-found
  result: the session check comes before the routing. An OPTIONS request, whose method
  is neither GET nor POST, is answered by the CORS middleware with 204 and an empty body,
  not with 405: the handler's method check is never reached.
\<close>

theorem handler_unsupported_counterexample:
  "req_method \<lparr>req_method = Some ''GET'', query_slug = SlugArray [''foo''], session = None,
               auth_user = None\<rparr> = Some ''GET''
   \<and> slugTruthy (SlugArray [''foo''])
   \<and> fst (handler storeClient
            \<lparr>req_method = Some ''GET'', query_slug = SlugArray [''foo''], session = None,
             auth_user = None\<rparr> (worldOf db0)) = not_authenticated
   \<and> status not_authenticated = 401
   \<and> status not_found = 404
   \<and> fst (handler storeClient
            \<lparr>req_method = Some ''OPTIONS'', query_slug = SlugUndefined, session = None,
             auth_user = None\<rparr> (worldOf db0)) = preflight
   \<and> status preflight = 204
   \<and> status not_allowed = 405"
  by (simp add: handler_def runMiddleware_cors not_found_def not_authenticated_def
                not_allowed_def preflight_def)

text \<open>
  Claim C9, amended. Every request whose method is not GET, POST or OPTIONS is answered
  405 "not_allowed", authenticated or not; an OPTIONS request is answered by the CORS
  middleware, 204 with an empty body, before the handler's method check; a GET or POST
  request without a session or without a user is answered 401 "not_authenticated"
  whatever its path. In each of these cases nothing else changes. The not-allowed
  response differs from the unauthenticated and the server-failure responses, and 405,
  401 and 500 are three statuses.
\<close>

theorem handler_unsupported:
  "(req_method req \<noteq> Some ''GET'' \<and> req_method req \<noteq> Some ''POST''
      \<and> req_method req \<noteq> Some ''OPTIONS'' \<longrightarrow>
      handler c req w = (not_allowed, w))
   \<and> (req_method req = Some ''OPTIONS'' \<longrightarrow> handler c req w = (preflight, w))
   \<and> ((req_method req = Some ''GET'' \<or> req_method req = Some ''POST'')
        \<and> (session req = None \<or> auth_user req = None) \<longrightarrow>
      handler c req w = (not_authenticated, w))
   \<and> not_allowed \<noteq> not_authenticated \<and> not_allowed \<noteq> server_error
   \<and> status not_allowed = 405 \<and> status not_authenticated = 401 \<and> status server_error = 500"
proof -
  have a: "req_method req \<noteq> Some ''GET'' \<and> req_method req \<noteq> Some ''POST''
      \<and> req_method req \<noteq> Some ''OPTIONS'' \<longrightarrow> handler c req w = (not_allowed, w)"
    by (simp add: handler_method_not_allowed)
  have b: "req_method req = Some ''OPTIONS'' \<longrightarrow> handler c req w = (preflight, w)"
    by (simp add: handler_preflight)
  have c: "handler c req w = (not_authenticated, w)"
    if "req_method req = Some ''GET'' \<or> req_method req = Some ''POST''"
       "session req = None \<or> auth_user req = None"
    using that by (rule handler_no_principal)
  have d: "not_allowed \<noteq> not_authenticated \<and> not_allowed \<noteq> server_error"
    by (simp add: not_allowed_def not_authenticated_def server_error_def)
  show ?thesis
    using a b c d by (simp add: not_allowed_def not_authenticated_def server_error_def)
qed

theorem handler_unsupported_witness:
  "handler storeClient
      \<lparr>req_method = Some ''PUT'', query_slug = SlugUndefined, session = None, auth_user = None\<rparr>
      (worldOf db0) = (not_allowed, worldOf db0)
   \<and> handler storeClient
      \<lparr>req_method = Some ''OPTIONS'', query_slug = SlugUndefined, session = None,
       auth_user = None\<rparr> (worldOf db0) = (preflight, worldOf db0)
   \<and> handler storeClient
      \<lparr>req_method = Some ''GET'', query_slug = SlugArray [''foo''], session = None,
       auth_user = None\<rparr> (worldOf db0) = (not_authenticated, worldOf db0)"
  using handler_unsupported
          [of "\<lparr>req_method = Some ''PUT'', query_slug = SlugUndefined, session = None,
                auth_user = None\<rparr>" storeClient "worldOf db0"]
        handler_unsupported
          [of "\<lparr>req_method = Some ''OPTIONS'', query_slug = SlugUndefined, session = None,
                auth_user = None\<rparr>" storeClient "worldOf db0"]
        handler_unsupported
          [of "\<lparr>req_method = Some ''GET'', query_slug = SlugArray [''foo''], session = None,
                auth_user = None\<rparr>" storeClient "worldOf db0"]
  by simp


section \<open>The client context\<close>

text \<open>
  Claim C10. Whatever the fetch yields, \<open>refreshApikey\<close> leaves \<open>credits\<close>, \<open>stats\<close>,
  \<open>promptLoading\<close> and \<open>accountLoading\<close> of the application state as they were: the state
  after it differs from the state before it in \<open>apikey\<close> at most. When the body is an
  object, \<open>apikey\<close> becomes its \<open>apikey\<close> property; when the fetch throws, the application
  state is unchanged.
\<close>

theorem refreshApikey_frame:
  "credits (appState (refreshApikey r st)) = credits (appState st)
   \<and> stats (appState (refreshApikey r st)) = stats (appState st)
   \<and> promptLoading (appState (refreshApikey r st)) = promptLoading (appState st)
   \<and> accountLoading (appState (refreshApikey r st)) = accountLoading (appState st)
   \<and> (appState (refreshApikey r st))\<lparr>apikey := apikey (appState st)\<rparr> = appState st
   \<and> apikey (appState (refreshApikey (FetchJson (JObj fs)) st)) =
       (case map_of fs ''apikey'' of None \<Rightarrow> JUndefined | Some v \<Rightarrow> v)
   \<and> appState (refreshApikey FetchThrows st) = appState st"
  by (cases r)
     (simp_all add: refreshApikey_def setApikey_def setPromptLoading_def Let_def split: sum.splits)

end
